theory Spec2Isabelle
  imports Main "HOL-Library.Sublist"
begin

section \<open>Python strings\<close>

text \<open>
  A Python \<open>str\<close> is modelled as a \<open>string\<close> whose characters are the code points
  below 256 (Latin-1), so that \<open>length\<close> counts what Python's \<open>len\<close> counts. On this
  range \<open>str.lower\<close> works character by character: it moves \<open>A\<close>..\<open>Z\<close> and the
  upper-case letters 0xC0..0xDE (without the multiplication sign 0xD7) up by 32.
\<close>

definition lower_char :: "char \<Rightarrow> char" where
  "lower_char c =
     (let n = (of_char c :: nat)
      in if (65 \<le> n \<and> n \<le> 90) \<or> (192 \<le> n \<and> n \<le> 222 \<and> n \<noteq> 215)
         then char_of (n + 32) else c)"

definition lower :: "string \<Rightarrow> string" where
  "lower s = map lower_char s"

text \<open>
  The characters that \<open>str.split()\<close> and \<open>str.strip()\<close> treat as white space
  (\<open>str.isspace\<close>) among the code points below 256.
\<close>

definition is_space :: "char \<Rightarrow> bool" where
  "is_space c =
     (let n = (of_char c :: nat)
      in (9 \<le> n \<and> n \<le> 13) \<or> (28 \<le> n \<and> n \<le> 32) \<or> n = 133 \<or> n = 160)"

text \<open>\<open>s.strip()\<close>: white space removed at both ends.\<close>

definition strip :: "string \<Rightarrow> string" where
  "strip s = rev (dropWhile is_space (rev (dropWhile is_space s)))"

text \<open>
  \<open>s.split()\<close>: the maximal runs of characters that are not white space, in order;
  \<open>split_acc w s\<close> carries the word \<open>w\<close> read so far.
\<close>

fun split_acc :: "string \<Rightarrow> string \<Rightarrow> string list" where
  "split_acc w [] = (if w = [] then [] else [w])"
| "split_acc w (c # cs) =
     (if is_space c then (if w = [] then split_acc [] cs else w # split_acc [] cs)
      else split_acc (w @ [c]) cs)"

definition split :: "string \<Rightarrow> string list" where
  "split s = split_acc [] s"

text \<open>\<open>sep.join(parts)\<close>.\<close>

fun join :: "string \<Rightarrow> string list \<Rightarrow> string" where
  "join sep [] = []"
| "join sep [p] = p"
| "join sep (p # q # ps) = p @ sep @ join sep (q # ps)"

text \<open>\<open>k in s\<close> on strings: \<open>k\<close> occurs in \<open>s\<close> as a contiguous substring.\<close>

primrec contains :: "string \<Rightarrow> string \<Rightarrow> bool" where
  "contains [] k = (k = [])"
| "contains (c # cs) k = (prefix k (c # cs) \<or> contains cs k)"

text \<open>\<open>s.replace(old, new)\<close> for a one-character \<open>old\<close>.\<close>

definition replace_char :: "char \<Rightarrow> string \<Rightarrow> string \<Rightarrow> string" where
  "replace_char old new s = concat (map (\<lambda>c. if c = old then new else [c]) s)"

text \<open>\<open>str(n)\<close> for a count \<open>n\<close>, as an f-string formats it.\<close>

fun digits :: "nat \<Rightarrow> string" where
  "digits n =
     (if n < 10 then [''0123456789'' ! n]
      else digits (n div 10) @ [''0123456789'' ! (n mod 10)])"

section \<open>models.py: the two tables\<close>

text \<open>
  A table is the list of its rows in insertion order. A \<open>DateTime\<close> is a number (a
  reading of the clock); \<open>default=datetime.utcnow\<close> fills it when the row is inserted,
  once for each such column, so the clock readings are inputs of the operations that
  insert. An autoincrement primary key is greater than every key of the table.
\<close>

record Conversation =
  conv_id :: nat
  conv_user_id :: string
  conv_created_at :: nat
  conv_updated_at :: nat

record Message =
  msg_id :: nat
  msg_user_id :: string
  msg_conversation_id :: nat
  msg_role :: string
  msg_content :: string
  msg_timestamp :: nat

record database =
  conversations :: "Conversation list"
  messages :: "Message list"

definition next_id :: "nat list \<Rightarrow> nat" where
  "next_id ids = Suc (fold max ids 0)"

section \<open>database\_service.py\<close>

text \<open>\<open>db.query(Conversation).filter(Conversation.user_id == user_id).first()\<close>.\<close>

definition find_conversation :: "database \<Rightarrow> string \<Rightarrow> Conversation option" where
  "find_conversation db uid = find (\<lambda>c. conv_user_id c = uid) (conversations db)"

definition get_or_create_conversation ::
  "nat \<Rightarrow> nat \<Rightarrow> database \<Rightarrow> string \<Rightarrow> database \<times> Conversation" where
  "get_or_create_conversation created updated db uid =
     (case find_conversation db uid of
        Some conversation \<Rightarrow> (db, conversation)
      | None \<Rightarrow>
          (let conversation =
                 \<lparr> conv_id = next_id (map conv_id (conversations db)), conv_user_id = uid,
                   conv_created_at = created, conv_updated_at = updated \<rparr>
           in (db\<lparr>conversations := conversations db @ [conversation]\<rparr>, conversation)))"

definition save_message ::
  "nat \<Rightarrow> database \<Rightarrow> string \<Rightarrow> nat \<Rightarrow> string \<Rightarrow> string \<Rightarrow> database \<times> Message" where
  "save_message now db uid cid role_name text =
     (let message =
            \<lparr> msg_id = next_id (map msg_id (messages db)), msg_user_id = uid,
              msg_conversation_id = cid, msg_role = role_name, msg_content = text,
              msg_timestamp = now \<rparr>
      in (db\<lparr>messages := messages db @ [message]\<rparr>, message))"

text \<open>
  \<open>.order_by(Message.timestamp.desc())\<close>: latest first. SQL leaves the order of rows
  with equal timestamps open; the model keeps them in insertion order.
\<close>

definition order_by_timestamp_desc :: "Message list \<Rightarrow> Message list" where
  "order_by_timestamp_desc ms = sort_key (\<lambda>m. - int (msg_timestamp m)) ms"

text \<open>An entry of the history: the dict with the keys role, content and timestamp.\<close>

record history_entry =
  role :: string
  content :: string
  timestamp :: nat

definition get_conversation_history :: "database \<Rightarrow> string \<Rightarrow> nat \<Rightarrow> history_entry list" where
  "get_conversation_history db uid limit =
     (case find_conversation db uid of
        None \<Rightarrow> []
      | Some conversation \<Rightarrow>
          (let msgs = take limit (order_by_timestamp_desc
                        (filter (\<lambda>m. msg_conversation_id m = conv_id conversation) (messages db)))
           in map (\<lambda>msg. \<lparr> role = msg_role msg, content = msg_content msg,
                            timestamp = msg_timestamp msg \<rparr>) (rev msgs)))"

text \<open>
  The dict that \<open>get_user_sentiment_history\<close> returns. The keys message\_count, topics
  and sentiment are in every result; total\_messages, last\_message\_time and
  engagement\_level are in the full result only, so each of these is an option whose
  \<open>None\<close> says that the dict has no such key. The value under last\_message\_time is a
  timestamp or Python's \<open>None\<close>.
\<close>

record user_analysis =
  message_count :: nat
  topics :: "string list"
  sentiment :: string
  total_messages :: "nat option"
  last_message_time :: "nat option option"
  engagement_level :: "string option"

text \<open>\<open>{"message_count": 0, "topics": [], "sentiment": "neutral"}\<close>\<close>

definition zero_analysis :: user_analysis where
  "zero_analysis =
     \<lparr> message_count = 0, topics = [], sentiment = ''neutral'', total_messages = None,
       last_message_time = None, engagement_level = None \<rparr>"

text \<open>
  The query for \<open>user_messages\<close>: the rows of the conversation with role "user", latest
  first, at most 50.
\<close>

definition recent_user_messages :: "database \<Rightarrow> Conversation \<Rightarrow> Message list" where
  "recent_user_messages db conversation =
     take 50 (order_by_timestamp_desc
       (filter (\<lambda>m. msg_conversation_id m = conv_id conversation \<and> msg_role m = ''user'')
          (messages db)))"

text \<open>
  \<open>word_freq[word] = word_freq.get(word, 0) + 1\<close> on a dict, which keeps its keys in
  the order of their first insertion: the dict is the list of its items.
\<close>

primrec count_word :: "string \<Rightarrow> (string \<times> nat) list \<Rightarrow> (string \<times> nat) list" where
  "count_word word [] = [(word, 1)]"
| "count_word word (item # items) =
     (if fst item = word then (fst item, snd item + 1) # items
      else item # count_word word items)"

text \<open>The loop over \<open>words\<close> that fills \<open>word_freq\<close>, from the empty dict.\<close>

definition word_freq :: "string list \<Rightarrow> (string \<times> nat) list" where
  "word_freq words =
     fold (\<lambda>word freq. if length word > 3 then count_word word freq else freq) words []"

text \<open>
  \<open>sorted(items, key=lambda x: x[1], reverse=True)\<close>: by falling count; Python's sort
  is stable, also with \<open>reverse=True\<close>, so items of equal count keep their order.
\<close>

definition sorted_by_count_desc :: "(string \<times> nat) list \<Rightarrow> (string \<times> nat) list" where
  "sorted_by_count_desc items = sort_key (\<lambda>x. - int (snd x)) items"

definition positive_words :: "string list" where
  "positive_words =
     [''good'', ''great'', ''happy'', ''better'', ''improved'', ''thanks'', ''helpful'',
      ''positive'', ''progress'']"

definition negative_words :: "string list" where
  "negative_words =
     [''bad'', ''sad'', ''depressed'', ''anxious'', ''worried'', ''struggling'', ''difficult'',
      ''negative'', ''hopeless'']"

text \<open>\<open>sum(1 for word in words if word in word_list)\<close>\<close>

definition count_in :: "string list \<Rightarrow> string list \<Rightarrow> nat" where
  "count_in word_list words = sum_list (map (\<lambda>word. 1) (filter (\<lambda>word. word \<in> set word_list) words))"

text \<open>\<open>db.query(Message).filter(Message.user_id == user_id).count()\<close>\<close>

definition count_user_rows :: "database \<Rightarrow> string \<Rightarrow> nat" where
  "count_user_rows db uid = length (filter (\<lambda>m. msg_user_id m = uid) (messages db))"

text \<open>The words of the messages: \<open>" ".join([msg.content.lower() ...]).split()\<close>.\<close>

definition words_of :: "Message list \<Rightarrow> string list" where
  "words_of user_messages = split (join '' '' (map (\<lambda>msg. lower (msg_content msg)) user_messages))"

definition get_user_sentiment_history :: "database \<Rightarrow> string \<Rightarrow> user_analysis" where
  "get_user_sentiment_history db uid =
     (case find_conversation db uid of
        None \<Rightarrow> zero_analysis
      | Some conversation \<Rightarrow>
          (let user_messages = recent_user_messages db conversation;
               count = length user_messages
           in if count = 0 then zero_analysis
              else
                (let words = words_of user_messages;
                     top = map fst (take 5 (sorted_by_count_desc (word_freq words)));
                     positive_count = count_in positive_words words;
                     negative_count = count_in negative_words words;
                     total_count = count_user_rows db uid
                 in \<lparr> message_count = count,
                      topics = top,
                      sentiment =
                        (if positive_count > negative_count then ''positive''
                         else if negative_count > positive_count then ''negative''
                         else ''neutral''),
                      total_messages = Some total_count,
                      last_message_time =
                        Some (case user_messages of [] \<Rightarrow> None
                              | msg # _ \<Rightarrow> Some (msg_timestamp msg)),
                      engagement_level =
                        Some (if total_count > 20 then ''high''
                              else if total_count > 10 then ''medium'' else ''low'') \<rparr>)))"

record conversation_summary =
  total_conversations :: nat
  summary_total_messages :: nat
  first_conversation :: "nat option"
  last_conversation :: "nat option"

definition get_user_conversation_summary :: "database \<Rightarrow> string \<Rightarrow> conversation_summary" where
  "get_user_conversation_summary db uid =
     (case find_conversation db uid of
        None \<Rightarrow>
          \<lparr> total_conversations = 0, summary_total_messages = 0, first_conversation = None,
            last_conversation = None \<rparr>
      | Some conversation \<Rightarrow>
          \<lparr> total_conversations = 1,
            summary_total_messages =
              length (filter (\<lambda>m. msg_conversation_id m = conv_id conversation) (messages db)),
            first_conversation = Some (conv_created_at conversation),
            last_conversation = Some (conv_updated_at conversation) \<rparr>)"

section \<open>ai\_service.py: the message classifier\<close>

record message_analysis =
  is_crisis :: bool
  is_urgent :: bool
  is_positive :: bool
  is_negative :: bool
  is_wellness :: bool
  message_length :: nat
  has_question :: bool
  urgency_level :: string

definition crisis_keywords :: "string list" where
  "crisis_keywords =
     [''suicide'', ''kill myself'', ''end it all'', ''don't want to live'', ''give up'',
      ''no reason to live'']"

definition urgent_keywords :: "string list" where
  "urgent_keywords =
     [''emergency'', ''urgent'', ''help now'', ''crisis'', ''panic'', ''overwhelmed'',
      ''can't cope'']"

definition positive_keywords :: "string list" where
  "positive_keywords =
     [''better'', ''improved'', ''happy'', ''good'', ''progress'', ''achievement'',
      ''positive'', ''grateful'']"

definition negative_keywords :: "string list" where
  "negative_keywords =
     [''sad'', ''depressed'', ''anxious'', ''worried'', ''struggling'', ''difficult'',
      ''negative'', ''hopeless'']"

definition wellness_keywords :: "string list" where
  "wellness_keywords =
     [''therapy'', ''meditation'', ''exercise'', ''breathing'', ''coping'', ''recovery'',
      ''treatment'']"

text \<open>\<open>any(keyword in message_lower for keyword in keywords)\<close>.\<close>

definition any_keyword :: "string list \<Rightarrow> string \<Rightarrow> bool" where
  "any_keyword keywords message_lower = list_ex (contains message_lower) keywords"

definition analyze_user_message :: "string \<Rightarrow> message_analysis" where
  "analyze_user_message message =
     (let message_lower = lower message;
          crisis = any_keyword crisis_keywords message_lower;
          urgent = any_keyword urgent_keywords message_lower
      in \<lparr> is_crisis = crisis,
           is_urgent = urgent,
           is_positive = any_keyword positive_keywords message_lower,
           is_negative = any_keyword negative_keywords message_lower,
           is_wellness = any_keyword wellness_keywords message_lower,
           message_length = length message,
           has_question = contains message ''?'',
           urgency_level = (if crisis then ''high'' else if urgent then ''medium'' else ''low'') \<rparr>)"

section \<open>ai\_service.py: the prompt and the completion call\<close>

text \<open>
  Exceptions as values: a key that a dict does not have, and whatever the completion
  service raises (network, quota, a response without text).
\<close>

datatype error = KeyError string | ServiceError string

definition system_prompt :: string where
  "system_prompt =
     ''You are a warm, supportive, and helpful assistant trained to support users with mental health '' @
     ''and addiction recovery. You are not a therapist, but you offer empathetic, kind, and motivating conversation. '' @
     ''Always maintain a supportive and non-judgmental tone. Personalize your responses based on the user's history and patterns.''"

definition newline :: char where
  "newline = CHR 0x0A"

text \<open>
  The lines that \<open>build_contextual_prompt\<close> appends under
  \<open>if user_analysis["total_messages"] > 0\<close>. Reading a key that the dict does not have
  raises \<open>KeyError\<close>; a timestamp is true, \<open>None\<close> is false.
\<close>

definition profile_lines :: "user_analysis \<Rightarrow> error + string list" where
  "profile_lines ua =
     (case total_messages ua of
        None \<Rightarrow> Inl (KeyError ''total_messages'')
      | Some total_count \<Rightarrow>
          if total_count > 0 then
            (case engagement_level ua of
               None \<Rightarrow> Inl (KeyError ''engagement_level'')
             | Some level \<Rightarrow>
                 (case last_message_time ua of
                    None \<Rightarrow> Inl (KeyError ''last_message_time'')
                  | Some last_time \<Rightarrow>
                      Inr ([''- Total messages: '' @ digits total_count,
                            ''- Engagement level: '' @ level,
                            ''- Overall sentiment trend: '' @ sentiment ua]
                           @ (if topics ua \<noteq> []
                              then [''- Common topics discussed: '' @ join '', '' (topics ua)]
                              else [])
                           @ (if last_time \<noteq> None then [''- Last message was sent recently'']
                              else []))))
          else Inr [])"

text \<open>The list \<open>context_parts\<close> when \<open>build_contextual_prompt\<close> returns.\<close>

definition context_parts ::
  "string \<Rightarrow> string \<Rightarrow> history_entry list \<Rightarrow> user_analysis \<Rightarrow> database \<Rightarrow> error + string list" where
  "context_parts uid user_message conversation_history ua db =
     (case profile_lines ua of
        Inl e \<Rightarrow> Inl e
      | Inr profile \<Rightarrow>
          (let user_summary = get_user_conversation_summary db uid
           in Inr ([system_prompt, newline # ''User Profile (ID: '' @ uid @ ''):'']
                   @ profile
                   @ (if total_conversations user_summary > 0
                      then [''- User has '' @ digits (total_conversations user_summary)
                              @ '' total conversations'']
                      else [])
                   @ (if conversation_history \<noteq> []
                      then (newline # ''Recent Conversation History:'')
                           # map (\<lambda>msg. (if role msg = ''user'' then ''User'' else ''Assistant'')
                                          @ '': '' @ content msg)
                               (drop (length conversation_history - 6) conversation_history)
                      else [])
                   @ [newline # ''Current User Message: '' @ user_message,
                      newline # ''Assistant:''])))"

definition build_contextual_prompt ::
  "string \<Rightarrow> string \<Rightarrow> history_entry list \<Rightarrow> user_analysis \<Rightarrow> database \<Rightarrow> error + string" where
  "build_contextual_prompt uid user_message conversation_history ua db =
     (case context_parts uid user_message conversation_history ua db of
        Inl e \<Rightarrow> Inl e
      | Inr parts \<Rightarrow> Inr (join [newline] parts))"

definition fallback_reply :: string where
  "fallback_reply =
     ''I understand what you're saying. Could you tell me more about how you're feeling?''"

definition apology_reply :: string where
  "apology_reply =
     ''I'm here to listen and support you. I'm experiencing some technical difficulties right now, '' @
     ''but I want you to know that your feelings are valid and important. '' @
     ''Would you like to try sharing again?''"

text \<open>
  The body of the \<open>try\<close> in \<open>generate_response\<close>. The completion service
  (\<open>self.model.generate_content(full_prompt)\<close>, then \<open>response.text\<close>) is the parameter
  \<open>generate_content\<close>: for a prompt it returns the text or raises.
\<close>

definition generate_response_try ::
  "(string \<Rightarrow> error + string) \<Rightarrow> string \<Rightarrow> string \<Rightarrow> history_entry list \<Rightarrow> user_analysis \<Rightarrow>
   database \<Rightarrow> error + string" where
  "generate_response_try generate_content uid user_message conversation_history ua db =
     (case build_contextual_prompt uid user_message conversation_history ua db of
        Inl e \<Rightarrow> Inl e
      | Inr full_prompt \<Rightarrow>
          (case generate_content full_prompt of
             Inl e \<Rightarrow> Inl e
           | Inr text \<Rightarrow>
               (let ai_response = strip text
                in Inr (if ai_response = [] \<or> length ai_response < 10 then fallback_reply
                        else ai_response))))"

text \<open>\<open>except Exception\<close>: every exception of the body becomes the apology.\<close>

definition generate_response ::
  "(string \<Rightarrow> error + string) \<Rightarrow> string \<Rightarrow> string \<Rightarrow> history_entry list \<Rightarrow> user_analysis \<Rightarrow>
   database \<Rightarrow> error + string" where
  "generate_response generate_content uid user_message conversation_history ua db =
     (case generate_response_try generate_content uid user_message conversation_history ua db of
        Inl e \<Rightarrow> Inr apology_reply
      | Inr ai_response \<Rightarrow> Inr ai_response)"

section \<open>main.py: the chat endpoint\<close>

record MessageRequest =
  req_message :: string
  req_user_id :: string

record context_analysis_dict =
  ca_user_id :: string
  ca_total_messages :: nat
  sentiment_trend :: string
  ca_engagement_level :: string
  common_topics :: "string list"
  current_message_analysis :: message_analysis

record MessageResponse =
  response :: string
  response_html :: string
  resp_user_id :: string
  message_id :: nat
  context_analysis :: context_analysis_dict

text \<open>
  What a request takes from outside the store: the completion service, and the clock
  readings for the rows it may insert.
\<close>

record environment =
  generate_content :: "string \<Rightarrow> error + string"
  now_created :: nat
  now_updated :: nat
  now_user_message :: nat
  now_assistant_message :: nat

text \<open>
  The notice starts with two line feeds and the warning sign U+26A0 U+FE0F, which is
  beyond the code points below 256 and is written here as its six UTF-8 bytes.
\<close>

definition crisis_notice :: string where
  "crisis_notice =
     [newline, newline, CHR 0xE2, CHR 0x9A, CHR 0xA0, CHR 0xEF, CHR 0xB8, CHR 0x8F] @
     '' If you're having thoughts of self-harm, please contact the National Suicide Prevention Lifeline '' @
     ''at 988 or 1-800-273-8255. You're not alone, and help is available 24/7.''"

definition trouble_reply :: string where
  "trouble_reply = ''I'm sorry, I'm having trouble responding right now. Please try again later.''"

text \<open>
  \<open>chat_endpoint\<close> returns the store as the request leaves it, and either the response
  or the exception that its outer handler turns into an HTTP 500 (the rows saved before
  stay saved).
\<close>

definition chat_endpoint ::
  "environment \<Rightarrow> database \<Rightarrow> MessageRequest \<Rightarrow> database \<times> (error + MessageResponse)" where
  "chat_endpoint env db req =
     (let (db1, conversation) =
            get_or_create_conversation (now_created env) (now_updated env) db (req_user_id req);
          (db2, user_message) =
            save_message (now_user_message env) db1 (req_user_id req) (conv_id conversation)
              ''user'' (req_message req);
          conversation_history = get_conversation_history db2 (req_user_id req) 10;
          user_analysis = get_user_sentiment_history db2 (req_user_id req);
          current = analyze_user_message (req_message req);
          ai_response =
            (case generate_response (generate_content env) (req_user_id req) (req_message req)
                    conversation_history user_analysis db2 of
               Inr text \<Rightarrow> text
             | Inl e \<Rightarrow> trouble_reply);
          (db3, assistant_message) =
            save_message (now_assistant_message env) db2 (req_user_id req) (conv_id conversation)
              ''assistant'' ai_response
      in (db3,
          case total_messages user_analysis of
            None \<Rightarrow> Inl (KeyError ''total_messages'')
          | Some total_count \<Rightarrow>
              (case engagement_level user_analysis of
                 None \<Rightarrow> Inl (KeyError ''engagement_level'')
               | Some level \<Rightarrow>
                   (let ai_response' =
                          (if is_crisis current then ai_response @ crisis_notice else ai_response);
                        ai_response_html = replace_char newline ''<br>'' ai_response'
                    in Inr \<lparr> response = ai_response',
                             response_html = ai_response_html,
                             resp_user_id = req_user_id req,
                             message_id = msg_id assistant_message,
                             context_analysis =
                               \<lparr> ca_user_id = req_user_id req,
                                 ca_total_messages = total_count,
                                 sentiment_trend = sentiment user_analysis,
                                 ca_engagement_level = level,
                                 common_topics = topics user_analysis,
                                 current_message_analysis = current \<rparr> \<rparr>))))"

section \<open>Notions that the statements use\<close>

text \<open>
  The store when a chat request reaches the analysis step: the conversation resolved or
  created and the inbound message saved (the first two steps of \<open>chat_endpoint\<close>).
\<close>

definition inbound_persisted :: "environment \<Rightarrow> database \<Rightarrow> MessageRequest \<Rightarrow> database" where
  "inbound_persisted env db req =
     (let (db1, conversation) =
            get_or_create_conversation (now_created env) (now_updated env) db (req_user_id req)
      in fst (save_message (now_user_message env) db1 (req_user_id req) (conv_id conversation)
                ''user'' (req_message req)))"

text \<open>The reply of the completion gateway in a chat request: \<open>ai_response\<close> when it is saved.\<close>

definition gateway_reply :: "environment \<Rightarrow> database \<Rightarrow> MessageRequest \<Rightarrow> string" where
  "gateway_reply env db req =
     (let db2 = inbound_persisted env db req
      in case generate_response (generate_content env) (req_user_id req) (req_message req)
                (get_conversation_history db2 (req_user_id req) 10)
                (get_user_sentiment_history db2 (req_user_id req)) db2 of
           Inr text \<Rightarrow> text
         | Inl e \<Rightarrow> trouble_reply)"

text \<open>The user has a message of role "user" in the conversation.\<close>

definition has_user_message :: "database \<Rightarrow> Conversation \<Rightarrow> bool" where
  "has_user_message db conversation =
     list_ex (\<lambda>m. msg_conversation_id m = conv_id conversation \<and> msg_role m = ''user'')
       (messages db)"

text \<open>
  A store as the code leaves it: the keys of the conversations are distinct, and every
  message row belongs to a conversation of the user that the row names.
\<close>

definition consistent_store :: "database \<Rightarrow> bool" where
  "consistent_store db =
     (distinct (map conv_id (conversations db)) \<and>
      list_all (\<lambda>m. list_ex (\<lambda>c. conv_id c = msg_conversation_id m \<and>
                                  conv_user_id c = msg_user_id m) (conversations db))
        (messages db))"


text \<open>
  The topics as the specification words them. The distinct elements of a list, in the
  order of their first occurrence:
\<close>

primrec first_occurrences :: "'a list \<Rightarrow> 'a list" where
  "first_occurrences [] = []"
| "first_occurrences (x # xs) = x # filter (\<lambda>y. y \<noteq> x) (first_occurrences xs)"

text \<open>
  The frequency map over the tokens longer than 3 characters: each such token once, in
  the order of first appearance, with the number of its occurrences.
\<close>

definition frequency_spec :: "string list \<Rightarrow> (string \<times> nat) list" where
  "frequency_spec tokens =
     (let long = filter (\<lambda>t. length t > 3) tokens
      in map (\<lambda>t. (t, count_list long t)) (first_occurrences long))"

text \<open>
  Lower-case the messages, join them and split at white space; rank the frequency map by
  falling frequency with a stable sort; the first 5 tokens.
\<close>

definition topics_spec :: "Message list \<Rightarrow> string list" where
  "topics_spec user_messages =
     (let tokens = split (join '' '' (map (\<lambda>m. lower (msg_content m)) user_messages));
          ranked = sort_key (\<lambda>item. - int (snd item)) (frequency_spec tokens)
      in map fst (take 5 ranked))"

text \<open>
  The HTML variant as the specification words it: the HTML-special characters escaped
  (as Python's \<open>html.escape\<close> does), then every line feed turned into a line break.
\<close>

definition html_escape :: "string \<Rightarrow> string" where
  "html_escape s =
     concat (map (\<lambda>c. if c = CHR ''&'' then ''&amp;''
                       else if c = CHR ''<'' then ''&lt;''
                       else if c = CHR ''>'' then ''&gt;''
                       else if c = CHR 0x22 then ''&quot;''
                       else if c = CHR 0x27 then ''&#x27;''
                       else [c]) s)"

definition response_html_spec :: "string \<Rightarrow> string" where
  "response_html_spec text = replace_char newline ''<br>'' (html_escape text)"

text \<open>A completion service that answers every prompt with one text, and one that is down.\<close>

definition constant_service :: "string \<Rightarrow> string \<Rightarrow> error + string" where
  "constant_service text prompt = Inr text"

definition failing_service :: "string \<Rightarrow> error + string" where
  "failing_service prompt = Inl (ServiceError ''unreachable'')"

definition empty_db :: database where
  "empty_db = \<lparr> conversations = [], messages = [] \<rparr>"

section \<open>Example inputs\<close>

definition example_env :: environment where
  "example_env =
     \<lparr> generate_content = constant_service ''Thank you for sharing <that> & more.'',
       now_created = 100, now_updated = 100,
       now_user_message = 101, now_assistant_message = 102 \<rparr>"

definition crisis_request :: MessageRequest where
  "crisis_request = \<lparr> req_message = ''I want to end it all'', req_user_id = ''u1'' \<rparr>"

definition grateful_request :: MessageRequest where
  "grateful_request =
     \<lparr> req_message = ''I'm grateful and things are better'', req_user_id = ''u1'' \<rparr>"

definition example_conversation :: Conversation where
  "example_conversation =
     \<lparr> conv_id = 1, conv_user_id = ''u1'', conv_created_at = 100, conv_updated_at = 100 \<rparr>"

text \<open>A store where the user has \<open>n\<close> rows, by turns of role "user" and "assistant".\<close>

definition db_with_rows :: "nat \<Rightarrow> database" where
  "db_with_rows n =
     \<lparr> conversations = [example_conversation],
       messages =
         map (\<lambda>i. \<lparr> msg_id = i, msg_user_id = ''u1'', msg_conversation_id = 1,
                    msg_role = (if even i then ''assistant'' else ''user''),
                    msg_content = ''hello there'', msg_timestamp = 100 + i \<rparr>) [1..<Suc n] \<rparr>"

text \<open>A store whose only row is a message of role "assistant".\<close>

definition assistant_only_db :: database where
  "assistant_only_db =
     \<lparr> conversations = [example_conversation],
       messages =
         [\<lparr> msg_id = 1, msg_user_id = ''u1'', msg_conversation_id = 1, msg_role = ''assistant'',
            msg_content = ''Welcome'', msg_timestamp = 101 \<rparr>] \<rparr>"

text \<open>An analysis with message\_count 0 and total\_messages 5.\<close>

definition mixed_analysis :: user_analysis where
  "mixed_analysis =
     \<lparr> message_count = 0, topics = [], sentiment = ''neutral'', total_messages = Some 5,
       last_message_time = Some None, engagement_level = Some ''low'' \<rparr>"

text \<open>A store with two user messages and an assistant message between them.\<close>

definition topics_db :: database where
  "topics_db =
     \<lparr> conversations = [example_conversation],
       messages =
         [\<lparr> msg_id = 1, msg_user_id = ''u1'', msg_conversation_id = 1, msg_role = ''user'',
            msg_content = ''Sleep helps; work hurts calm'', msg_timestamp = 101 \<rparr>,
          \<lparr> msg_id = 2, msg_user_id = ''u1'', msg_conversation_id = 1, msg_role = ''assistant'',
            msg_content = ''Tell me more about work'', msg_timestamp = 102 \<rparr>,
          \<lparr> msg_id = 3, msg_user_id = ''u1'', msg_conversation_id = 1, msg_role = ''user'',
            msg_content = ''Work work SLEEP family'', msg_timestamp = 103 \<rparr>] \<rparr>"

section \<open>Strings: basic facts\<close>

lemma contains_iff: "contains s k \<longleftrightarrow> (\<exists>pre post. s = pre @ k @ post)"
proof (induction s)
  case Nil
  then show ?case by auto
next
  case (Cons c cs)
  show ?case
  proof
    assume "contains (c # cs) k"
    then consider "prefix k (c # cs)" | "contains cs k" by auto
    then show "\<exists>pre post. c # cs = pre @ k @ post"
    proof cases
      case 1
      then obtain post where "c # cs = k @ post" by (auto simp: prefix_def)
      then have "c # cs = [] @ k @ post" by simp
      then show ?thesis by blast
    next
      case 2
      with Cons.IH obtain pre post where "cs = pre @ k @ post" by blast
      then have "c # cs = (c # pre) @ k @ post" by simp
      then show ?thesis by blast
    qed
  next
    assume "\<exists>pre post. c # cs = pre @ k @ post"
    then obtain pre post where eq: "c # cs = pre @ k @ post" by blast
    show "contains (c # cs) k"
    proof (cases pre)
      case Nil
      with eq have "prefix k (c # cs)" by (simp add: prefix_def)
      then show ?thesis by simp
    next
      case (Cons p pre')
      with eq have "cs = pre' @ k @ post" by simp
      with Cons.IH have "contains cs k" by blast
      then show ?thesis by simp
    qed
  qed
qed

lemma any_keyword_iff:
  "any_keyword ks s \<longleftrightarrow> (\<exists>k \<in> set ks. \<exists>pre post. s = pre @ k @ post)"
  by (simp add: any_keyword_def list_ex_iff contains_iff)

section \<open>The store and the analysis: basic facts\<close>

lemma find_snoc:
  "find P (xs @ [x]) = (case find P xs of Some y \<Rightarrow> Some y | None \<Rightarrow> if P x then Some x else None)"
  by (induction xs) auto

lemma get_or_create_conversation_finds:
  assumes "get_or_create_conversation created updated db uid = (db1, c)"
  shows "find_conversation db1 uid = Some c" and "messages db1 = messages db"
  using assms
  by (auto simp: get_or_create_conversation_def find_conversation_def find_snoc Let_def
      split: option.splits)

lemma recent_user_messages_empty_iff:
  "recent_user_messages db c = [] \<longleftrightarrow> \<not> has_user_message db c"
proof -
  let ?ms = "filter (\<lambda>m. msg_conversation_id m = conv_id c \<and> msg_role m = ''user'') (messages db)"
  have "recent_user_messages db c = [] \<longleftrightarrow> length (order_by_timestamp_desc ?ms) = 0"
    by (simp add: recent_user_messages_def)
  also have "\<dots> \<longleftrightarrow> ?ms = []"
    by (simp add: order_by_timestamp_desc_def)
  also have "\<dots> \<longleftrightarrow> \<not> has_user_message db c"
    by (simp add: has_user_message_def list_ex_iff filter_empty_conv)
  finally show ?thesis .
qed

lemma inbound_persisted_facts:
  "\<exists>c um. find_conversation (inbound_persisted env db req) (req_user_id req) = Some c \<and>
     get_or_create_conversation (now_created env) (now_updated env) db (req_user_id req)
       = (fst (get_or_create_conversation (now_created env) (now_updated env) db (req_user_id req)), c) \<and>
     has_user_message (inbound_persisted env db req) c"
proof -
  obtain db1 c where g: "get_or_create_conversation (now_created env) (now_updated env) db (req_user_id req) = (db1, c)"
    by (cases "get_or_create_conversation (now_created env) (now_updated env) db (req_user_id req)")
  have f: "find_conversation db1 (req_user_id req) = Some c"
    using get_or_create_conversation_finds(1) [OF g] .
  have "find_conversation (inbound_persisted env db req) (req_user_id req) = Some c"
    using f by (simp add: inbound_persisted_def g save_message_def find_conversation_def Let_def)
  moreover have "has_user_message (inbound_persisted env db req) c"
    by (simp add: inbound_persisted_def g save_message_def has_user_message_def Let_def)
  ultimately show ?thesis using g by auto
qed

lemma get_user_sentiment_history_zero:
  assumes "find_conversation db uid = None \<or>
           (\<exists>c. find_conversation db uid = Some c \<and> \<not> has_user_message db c)"
  shows "get_user_sentiment_history db uid = zero_analysis"
  using assms
  by (auto simp: get_user_sentiment_history_def recent_user_messages_empty_iff Let_def)

lemma get_user_sentiment_history_full:
  assumes "find_conversation db uid = Some c" and "has_user_message db c"
  shows "get_user_sentiment_history db uid =
     \<lparr> message_count = length (recent_user_messages db c),
       topics = map fst (take 5 (sorted_by_count_desc (word_freq (words_of (recent_user_messages db c))))),
       sentiment =
         (if count_in positive_words (words_of (recent_user_messages db c))
               > count_in negative_words (words_of (recent_user_messages db c)) then ''positive''
          else if count_in negative_words (words_of (recent_user_messages db c))
               > count_in positive_words (words_of (recent_user_messages db c)) then ''negative''
          else ''neutral''),
       total_messages = Some (count_user_rows db uid),
       last_message_time = Some (Some (msg_timestamp (hd (recent_user_messages db c)))),
       engagement_level =
         Some (if count_user_rows db uid > 20 then ''high''
               else if count_user_rows db uid > 10 then ''medium'' else ''low'') \<rparr>"
proof -
  have ne: "recent_user_messages db c \<noteq> []"
    using assms(2) by (simp add: recent_user_messages_empty_iff)
  then show ?thesis
    using assms(1)
    by (cases "recent_user_messages db c") (simp_all add: get_user_sentiment_history_def Let_def)
qed

lemma count_in_eq: "count_in ws words = length (filter (\<lambda>w. w \<in> set ws) words)"
  by (simp add: count_in_def sum_list_triv)

lemma chat_endpoint_stages:
  "chat_endpoint env db req =
     (let db2 = inbound_persisted env db req;
          conversation = snd (get_or_create_conversation (now_created env) (now_updated env) db (req_user_id req));
          ua = get_user_sentiment_history db2 (req_user_id req);
          reply = gateway_reply env db req;
          saved = save_message (now_assistant_message env) db2 (req_user_id req)
                    (conv_id conversation) ''assistant'' reply
      in (fst saved,
          case total_messages ua of
            None \<Rightarrow> Inl (KeyError ''total_messages'')
          | Some total_count \<Rightarrow>
              (case engagement_level ua of
                 None \<Rightarrow> Inl (KeyError ''engagement_level'')
               | Some level \<Rightarrow>
                   Inr \<lparr> response =
                           (if is_crisis (analyze_user_message (req_message req))
                            then reply @ crisis_notice else reply),
                         response_html =
                           replace_char newline ''<br>''
                             (if is_crisis (analyze_user_message (req_message req))
                              then reply @ crisis_notice else reply),
                         resp_user_id = req_user_id req,
                         message_id = msg_id (snd saved),
                         context_analysis =
                           \<lparr> ca_user_id = req_user_id req,
                             ca_total_messages = total_count,
                             sentiment_trend = sentiment ua,
                             ca_engagement_level = level,
                             common_topics = topics ua,
                             current_message_analysis = analyze_user_message (req_message req) \<rparr> \<rparr>)))"
  by (simp add: chat_endpoint_def inbound_persisted_def gateway_reply_def Let_def case_prod_beta
      split: option.splits)

lemma inbound_analysis:
  obtains c where
    "find_conversation (inbound_persisted env db req) (req_user_id req) = Some c"
    "has_user_message (inbound_persisted env db req) c"
    "snd (get_or_create_conversation (now_created env) (now_updated env) db (req_user_id req)) = c"
  using inbound_persisted_facts [of env db req] by (metis snd_conv)

lemma chat_endpoint_response:
  "\<exists>r. snd (chat_endpoint env db req) = Inr r \<and>
     response r = (if is_crisis (analyze_user_message (req_message req))
                   then gateway_reply env db req @ crisis_notice else gateway_reply env db req) \<and>
     response_html r = replace_char newline ''<br>'' (response r) \<and>
     message_id r = next_id (map msg_id (messages (inbound_persisted env db req)))"
proof -
  obtain c where c: "find_conversation (inbound_persisted env db req) (req_user_id req) = Some c"
    "has_user_message (inbound_persisted env db req) c"
    by (rule inbound_analysis)
  show ?thesis
    by (simp add: chat_endpoint_stages Let_def get_user_sentiment_history_full [OF c]
        save_message_def)
qed

lemma chat_endpoint_store:
  "messages (fst (chat_endpoint env db req)) =
     messages (inbound_persisted env db req) @
       [\<lparr> msg_id = next_id (map msg_id (messages (inbound_persisted env db req))),
          msg_user_id = req_user_id req,
          msg_conversation_id =
            conv_id (snd (get_or_create_conversation (now_created env) (now_updated env) db (req_user_id req))),
          msg_role = ''assistant'',
          msg_content = gateway_reply env db req,
          msg_timestamp = now_assistant_message env \<rparr>]"
  by (simp add: chat_endpoint_stages Let_def save_message_def)

section \<open>The parts of the prompt\<close>





section \<open>The topics: the frequency dict against its specification\<close>

lemma count_word_known:
  "word \<in> fst ` set items \<Longrightarrow> distinct (map fst items) \<Longrightarrow>
   count_word word items = map (\<lambda>item. (fst item, if fst item = word then snd item + 1 else snd item)) items"
proof (induction items)
  case Nil
  then show ?case by simp
next
  case (Cons item items)
  show ?case
  proof (cases "fst item = word")
    case True
    with Cons.prems(2) have "\<forall>other \<in> set items. fst other \<noteq> word"
      by (auto simp: image_iff)
    then have "map (\<lambda>item. (fst item, if fst item = word then snd item + 1 else snd item)) items = items"
      by (induction items) auto
    with True show ?thesis by simp
  next
    case False
    with Cons show ?thesis by auto
  qed
qed

lemma count_word_new:
  "word \<notin> fst ` set items \<Longrightarrow> count_word word items = items @ [(word, 1)]"
  by (induction items) auto

lemma fold_count_word:
  "distinct (map fst items) \<Longrightarrow>
   fold count_word ws items =
     map (\<lambda>item. (fst item, snd item + count_list ws (fst item))) items
     @ map (\<lambda>w. (w, count_list ws w)) (filter (\<lambda>w. w \<notin> fst ` set items) (first_occurrences ws))"
proof (induction ws arbitrary: items)
  case Nil
  then show ?case by simp
next
  case (Cons w ws)
  show ?case
  proof (cases "w \<in> fst ` set items")
    case True
    let ?items' = "map (\<lambda>item. (fst item, if fst item = w then snd item + 1 else snd item)) items"
    have step: "count_word w items = ?items'"
      using True Cons.prems by (rule count_word_known)
    have keys: "map fst ?items' = map fst items"
      by (simp add: comp_def)
    then have keys_set: "fst ` set ?items' = fst ` set items"
      by (metis list.set_map)
    have d: "distinct (map fst ?items')"
      using Cons.prems by (simp only: keys)
    have first: "map (\<lambda>item. (fst item, snd item + count_list ws (fst item))) ?items'
                 = map (\<lambda>item. (fst item, snd item + count_list (w # ws) (fst item))) items"
      by (simp add: comp_def)
    have flt: "filter (\<lambda>x. x \<notin> fst ` set items) (first_occurrences (w # ws))
               = filter (\<lambda>x. x \<notin> fst ` set items) (first_occurrences ws)"
      using True by (auto intro: filter_cong)
    have second: "map (\<lambda>x. (x, count_list (w # ws) x)) (filter (\<lambda>x. x \<notin> fst ` set items) (first_occurrences ws))
                  = map (\<lambda>x. (x, count_list ws x)) (filter (\<lambda>x. x \<notin> fst ` set items) (first_occurrences ws))"
      using True by (auto intro!: map_cong)
    have "fold count_word (w # ws) items = fold count_word ws ?items'"
      by (simp add: step)
    also have "\<dots> = map (\<lambda>item. (fst item, snd item + count_list ws (fst item))) ?items'
        @ map (\<lambda>x. (x, count_list ws x)) (filter (\<lambda>x. x \<notin> fst ` set ?items') (first_occurrences ws))"
      using Cons.IH [OF d] .
    finally show ?thesis
      by (simp only: first keys_set flt second)
  next
    case False
    let ?items' = "items @ [(w, 1)]"
    have step: "count_word w items = ?items'"
      using False by (rule count_word_new)
    have d: "distinct (map fst ?items')"
      using Cons.prems False by (simp add: image_iff)
    have first: "map (\<lambda>item. (fst item, snd item + count_list ws (fst item))) items
                 = map (\<lambda>item. (fst item, snd item + count_list (w # ws) (fst item))) items"
      using False by (auto intro!: map_cong)
    have flt: "filter (\<lambda>x. x \<notin> fst ` set items) (first_occurrences (w # ws))
               = w # filter (\<lambda>x. x \<notin> fst ` set ?items') (first_occurrences ws)"
      using False by (auto intro: filter_cong)
    have second: "map (\<lambda>x. (x, count_list (w # ws) x)) (filter (\<lambda>x. x \<notin> fst ` set ?items') (first_occurrences ws))
                  = map (\<lambda>x. (x, count_list ws x)) (filter (\<lambda>x. x \<notin> fst ` set ?items') (first_occurrences ws))"
      by (auto intro!: map_cong)
    have "fold count_word (w # ws) items = fold count_word ws ?items'"
      by (simp add: step)
    also have "\<dots> = map (\<lambda>item. (fst item, snd item + count_list ws (fst item))) ?items'
        @ map (\<lambda>x. (x, count_list ws x)) (filter (\<lambda>x. x \<notin> fst ` set ?items') (first_occurrences ws))"
      using Cons.IH [OF d] .
    also have "\<dots> = map (\<lambda>item. (fst item, snd item + count_list (w # ws) (fst item))) items
        @ map (\<lambda>x. (x, count_list (w # ws) x)) (filter (\<lambda>x. x \<notin> fst ` set items) (first_occurrences (w # ws)))"
      unfolding flt by (simp add: first second)
    finally show ?thesis .
  qed
qed

lemma fold_long_words:
  "fold (\<lambda>word freq. if length word > 3 then count_word word freq else freq) words items
   = fold count_word (filter (\<lambda>t. length t > 3) words) items"
  by (induction words arbitrary: items) auto

lemma word_freq_spec: "word_freq words = frequency_spec words"
  by (simp add: word_freq_def frequency_spec_def fold_long_words fold_count_word Let_def)

lemma sorted_by_count_desc_facts:
  "sorted_wrt (\<lambda>a b. snd b \<le> snd a) (sort_key (\<lambda>item. - int (snd item)) (items :: (string \<times> nat) list))"
  "set (sort_key (\<lambda>item. - int (snd item)) items) = set items"
  "length (sort_key (\<lambda>item. - int (snd item)) items) = length items"
  "filter (\<lambda>item. snd item = k) (sort_key (\<lambda>item. - int (snd item)) items)
     = filter (\<lambda>item. snd item = k) items"
proof -
  have "sorted (map (\<lambda>item. - int (snd item)) (sort_key (\<lambda>item. - int (snd item)) items))"
    by (rule sorted_sort_key)
  then show "sorted_wrt (\<lambda>a b. snd b \<le> snd a) (sort_key (\<lambda>item. - int (snd item)) items)"
    by (simp add: sorted_map)
  show "set (sort_key (\<lambda>item. - int (snd item)) items) = set items" by simp
  show "length (sort_key (\<lambda>item. - int (snd item)) items) = length items" by simp
  have "filter (\<lambda>item. - int (snd item) = - int k) (sort_key (\<lambda>item. - int (snd item)) items)
     = filter (\<lambda>item. - int (snd item) = - int k) items"
    by (rule sort_key_stable)
  then show "filter (\<lambda>item. snd item = k) (sort_key (\<lambda>item. - int (snd item)) items)
     = filter (\<lambda>item. snd item = k) items"
    by simp
qed

lemma recent_user_messages_facts:
  "length (recent_user_messages db c) \<le> 50"
  "sorted_wrt (\<lambda>a b. msg_timestamp b \<le> msg_timestamp a) (recent_user_messages db c)"
  "set (recent_user_messages db c)
     \<subseteq> {m \<in> set (messages db). msg_conversation_id m = conv_id c \<and> msg_role m = ''user''}"
  "\<forall>m \<in> {m \<in> set (messages db). msg_conversation_id m = conv_id c \<and> msg_role m = ''user''}
          - set (recent_user_messages db c).
     \<forall>r \<in> set (recent_user_messages db c). msg_timestamp m \<le> msg_timestamp r"
proof -
  let ?users = "filter (\<lambda>m. msg_conversation_id m = conv_id c \<and> msg_role m = ''user'') (messages db)"
  let ?all = "order_by_timestamp_desc ?users"
  have r: "recent_user_messages db c = take 50 ?all"
    by (simp add: recent_user_messages_def)
  have "sorted (map (\<lambda>m. - int (msg_timestamp m)) ?all)"
    unfolding order_by_timestamp_desc_def by (rule sorted_sort_key)
  then have s: "sorted_wrt (\<lambda>a b. msg_timestamp b \<le> msg_timestamp a) ?all"
    by (simp add: sorted_map)
  have set_all: "set ?all = set ?users"
    by (simp add: order_by_timestamp_desc_def)
  show "length (recent_user_messages db c) \<le> 50" by (simp add: r)
  show "sorted_wrt (\<lambda>a b. msg_timestamp b \<le> msg_timestamp a) (recent_user_messages db c)"
    unfolding r using s by (rule sorted_wrt_take)
  show "set (recent_user_messages db c)
     \<subseteq> {m \<in> set (messages db). msg_conversation_id m = conv_id c \<and> msg_role m = ''user''}"
    unfolding r using set_take_subset [of 50 ?all] set_all by auto
  have "sorted_wrt (\<lambda>a b. msg_timestamp b \<le> msg_timestamp a) (take 50 ?all @ drop 50 ?all)"
    using s by simp
  then have cross: "\<forall>x \<in> set (take 50 ?all). \<forall>y \<in> set (drop 50 ?all).
      msg_timestamp y \<le> msg_timestamp x"
    unfolding sorted_wrt_append by blast
  have "set ?all = set (take 50 ?all) \<union> set (drop 50 ?all)"
    by (metis append_take_drop_id set_append)
  then have rest: "set ?users - set (take 50 ?all) \<subseteq> set (drop 50 ?all)"
    using set_all by auto
  show "\<forall>m \<in> {m \<in> set (messages db). msg_conversation_id m = conv_id c \<and> msg_role m = ''user''}
          - set (recent_user_messages db c).
     \<forall>r \<in> set (recent_user_messages db c). msg_timestamp m \<le> msg_timestamp r"
    unfolding r using cross rest by auto
qed

lemma topics_refine:
  assumes "find_conversation db uid = Some c" and "has_user_message db c"
  shows "topics (get_user_sentiment_history db uid) = topics_spec (recent_user_messages db c)"
  by (simp add: get_user_sentiment_history_full [OF assms] topics_spec_def words_of_def
      sorted_by_count_desc_def word_freq_spec Let_def)

section \<open>The store as the code leaves it\<close>

lemma fold_max_bounds: "a \<le> fold max ids a \<and> (\<forall>i \<in> set ids. i \<le> fold max ids (a::nat))"
proof (induction ids arbitrary: a)
  case Nil
  then show ?case by simp
next
  case (Cons i ids)
  have "max i a \<le> fold max ids (max i a)" and "\<forall>j \<in> set ids. j \<le> fold max ids (max i a)"
    using Cons.IH [of "max i a"] by auto
  then show ?case by auto
qed

lemma next_id_fresh: "next_id ids \<notin> set ids"
  using fold_max_bounds [of 0 ids] by (auto simp: next_id_def)

lemma consistent_store_empty: "consistent_store empty_db"
  by (simp add: consistent_store_def empty_db_def)

lemma find_conversation_Some:
  assumes "find_conversation db uid = Some c"
  shows "c \<in> set (conversations db)" and "conv_user_id c = uid"
  using assms by (auto simp: find_conversation_def find_Some_iff)

lemma consistent_get_or_create:
  assumes "consistent_store db"
  shows "consistent_store (fst (get_or_create_conversation created updated db uid))"
proof (cases "find_conversation db uid")
  case (Some c)
  with assms show ?thesis by (simp add: get_or_create_conversation_def)
next
  case None
  have fresh: "next_id (map conv_id (conversations db)) \<notin> conv_id ` set (conversations db)"
    using next_id_fresh [of "map conv_id (conversations db)"] by simp
  show ?thesis
    using assms None fresh
    by (auto simp: get_or_create_conversation_def consistent_store_def Let_def list_all_iff
        list_ex_iff)
qed

lemma consistent_save_message:
  assumes "consistent_store db" and "find_conversation db uid = Some c"
  shows "consistent_store (fst (save_message now db uid (conv_id c) role_name text))"
  using assms find_conversation_Some [OF assms(2)]
  by (auto simp: save_message_def consistent_store_def Let_def list_all_iff list_ex_iff)



section \<open>The steps of a chat request\<close>

lemma inbound_persisted_store:
  "\<exists>c. messages (inbound_persisted env db req) =
       messages db @
         [\<lparr> msg_id = next_id (map msg_id (messages db)), msg_user_id = req_user_id req,
            msg_conversation_id = conv_id c, msg_role = ''user'',
            msg_content = req_message req, msg_timestamp = now_user_message env \<rparr>] \<and>
     find_conversation (inbound_persisted env db req) (req_user_id req) = Some c \<and>
     has_user_message (inbound_persisted env db req) c \<and>
     snd (get_or_create_conversation (now_created env) (now_updated env) db (req_user_id req)) = c"
proof -
  obtain db1 c where g:
    "get_or_create_conversation (now_created env) (now_updated env) db (req_user_id req) = (db1, c)"
    by (cases "get_or_create_conversation (now_created env) (now_updated env) db (req_user_id req)")
  have f: "find_conversation db1 (req_user_id req) = Some c" and m: "messages db1 = messages db"
    using get_or_create_conversation_finds [OF g] by simp_all
  have 1: "find_conversation (inbound_persisted env db req) (req_user_id req) = Some c"
    using f by (simp add: inbound_persisted_def g save_message_def find_conversation_def Let_def)
  have 2: "has_user_message (inbound_persisted env db req) c"
    by (simp add: inbound_persisted_def g save_message_def has_user_message_def Let_def)
  have 3: "messages (inbound_persisted env db req) =
       messages db @
         [\<lparr> msg_id = next_id (map msg_id (messages db)), msg_user_id = req_user_id req,
            msg_conversation_id = conv_id c, msg_role = ''user'',
            msg_content = req_message req, msg_timestamp = now_user_message env \<rparr>]"
    by (simp add: inbound_persisted_def g save_message_def Let_def m)
  have 4: "snd (get_or_create_conversation (now_created env) (now_updated env) db (req_user_id req)) = c"
    by (simp add: g)
  from 1 2 3 4 show ?thesis by blast
qed

lemma gateway_reply_from_prompt:
  assumes "context_parts (req_user_id req) (req_message req)
             (get_conversation_history (inbound_persisted env db req) (req_user_id req) 10)
             (get_user_sentiment_history (inbound_persisted env db req) (req_user_id req))
             (inbound_persisted env db req) = Inr parts"
  shows "gateway_reply env db req =
     (case generate_content env (join [newline] parts) of
        Inl e \<Rightarrow> apology_reply
      | Inr text \<Rightarrow>
          if strip text = [] \<or> length (strip text) < 10 then fallback_reply else strip text)"
  using assms
  by (simp add: gateway_reply_def generate_response_def generate_response_try_def
      build_contextual_prompt_def Let_def split: sum.splits)

lemma chat_endpoint_final_store:
  assumes g: "snd (get_or_create_conversation (now_created env) (now_updated env) db (req_user_id req)) = c"
  shows "fst (chat_endpoint env db req) =
     (inbound_persisted env db req)\<lparr>messages := messages (inbound_persisted env db req) @
       [\<lparr> msg_id = next_id (map msg_id (messages (inbound_persisted env db req))),
          msg_user_id = req_user_id req,
          msg_conversation_id = conv_id c, msg_role = ''assistant'',
          msg_content = gateway_reply env db req,
          msg_timestamp = now_assistant_message env \<rparr>]\<rparr>"
  by (simp add: chat_endpoint_stages Let_def save_message_def g)

lemma chat_endpoint_analysis_fields:
  assumes f: "find_conversation (inbound_persisted env db req) (req_user_id req) = Some c"
    and h: "has_user_message (inbound_persisted env db req) c"
  shows "\<exists>r. snd (chat_endpoint env db req) = Inr r \<and>
    total_messages (get_user_sentiment_history (inbound_persisted env db req) (req_user_id req))
       = Some (ca_total_messages (context_analysis r)) \<and>
    engagement_level (get_user_sentiment_history (inbound_persisted env db req) (req_user_id req))
       = Some (ca_engagement_level (context_analysis r)) \<and>
    sentiment_trend (context_analysis r)
       = sentiment (get_user_sentiment_history (inbound_persisted env db req) (req_user_id req)) \<and>
    common_topics (context_analysis r)
       = topics (get_user_sentiment_history (inbound_persisted env db req) (req_user_id req)) \<and>
    message_id r = next_id (map msg_id (messages (inbound_persisted env db req)))"
  by (simp add: chat_endpoint_stages Let_def get_user_sentiment_history_full [OF f h]
      save_message_def)

lemma chat_endpoint_prompt_parts:
  assumes f: "find_conversation (inbound_persisted env db req) (req_user_id req) = Some c"
    and h: "has_user_message (inbound_persisted env db req) c"
  shows "\<exists>parts. context_parts (req_user_id req) (req_message req)
       (get_conversation_history (inbound_persisted env db req) (req_user_id req) 10)
       (get_user_sentiment_history (inbound_persisted env db req) (req_user_id req))
       (inbound_persisted env db req) = Inr parts"
  by (simp add: get_user_sentiment_history_full [OF f h] context_parts_def profile_lines_def Let_def)

lemma chat_endpoint_flow:
  obtains c inbound saved r parts where
    "find_conversation (fst (chat_endpoint env db req)) (req_user_id req) = Some c"
    "messages (fst (chat_endpoint env db req)) = messages db @ [inbound, saved]"
    "msg_role inbound = ''user''" "msg_content inbound = req_message req"
    "msg_user_id inbound = req_user_id req" "msg_conversation_id inbound = conv_id c"
    "msg_role saved = ''assistant''" "msg_id saved = message_id r"
    "(fst (chat_endpoint env db req))\<lparr>messages := messages db @ [inbound]\<rparr>
       = inbound_persisted env db req"
    "has_user_message (inbound_persisted env db req) c"
    "context_parts (req_user_id req) (req_message req)
       (get_conversation_history (inbound_persisted env db req) (req_user_id req) 10)
       (get_user_sentiment_history (inbound_persisted env db req) (req_user_id req))
       (inbound_persisted env db req) = Inr parts"
    "msg_content saved =
       (case generate_content env (join [newline] parts) of
          Inl e \<Rightarrow> apology_reply
        | Inr text \<Rightarrow>
            if strip text = [] \<or> length (strip text) < 10 then fallback_reply else strip text)"
    "snd (chat_endpoint env db req) = Inr r"
    "total_messages (get_user_sentiment_history (inbound_persisted env db req) (req_user_id req))
       = Some (ca_total_messages (context_analysis r))"
    "engagement_level (get_user_sentiment_history (inbound_persisted env db req) (req_user_id req))
       = Some (ca_engagement_level (context_analysis r))"
    "sentiment_trend (context_analysis r)
       = sentiment (get_user_sentiment_history (inbound_persisted env db req) (req_user_id req))"
    "common_topics (context_analysis r)
       = topics (get_user_sentiment_history (inbound_persisted env db req) (req_user_id req))"
proof -
  define db2 where "db2 = inbound_persisted env db req"
  obtain c where c: "messages db2 =
       messages db @
         [\<lparr> msg_id = next_id (map msg_id (messages db)), msg_user_id = req_user_id req,
            msg_conversation_id = conv_id c, msg_role = ''user'',
            msg_content = req_message req, msg_timestamp = now_user_message env \<rparr>]"
    and f: "find_conversation db2 (req_user_id req) = Some c"
    and h: "has_user_message db2 c"
    and g: "snd (get_or_create_conversation (now_created env) (now_updated env) db
                  (req_user_id req)) = c"
    unfolding db2_def using inbound_persisted_store [of env db req] by blast
  define inbound where "inbound =
     \<lparr> msg_id = next_id (map msg_id (messages db)), msg_user_id = req_user_id req,
       msg_conversation_id = conv_id c, msg_role = ''user'',
       msg_content = req_message req, msg_timestamp = now_user_message env \<rparr>"
  define saved where "saved =
     \<lparr> msg_id = next_id (map msg_id (messages db2)), msg_user_id = req_user_id req,
       msg_conversation_id = conv_id c, msg_role = ''assistant'',
       msg_content = gateway_reply env db req, msg_timestamp = now_assistant_message env \<rparr>"
  have m2: "messages db2 = messages db @ [inbound]"
    unfolding inbound_def by (rule c)
  have fin: "fst (chat_endpoint env db req) = db2\<lparr>messages := messages db2 @ [saved]\<rparr>"
    unfolding saved_def db2_def by (rule chat_endpoint_final_store [OF g])
  obtain r where r: "snd (chat_endpoint env db req) = Inr r"
    "total_messages (get_user_sentiment_history db2 (req_user_id req))
       = Some (ca_total_messages (context_analysis r))"
    "engagement_level (get_user_sentiment_history db2 (req_user_id req))
       = Some (ca_engagement_level (context_analysis r))"
    "sentiment_trend (context_analysis r)
       = sentiment (get_user_sentiment_history db2 (req_user_id req))"
    "common_topics (context_analysis r)
       = topics (get_user_sentiment_history db2 (req_user_id req))"
    "message_id r = next_id (map msg_id (messages db2))"
    using chat_endpoint_analysis_fields [OF f [unfolded db2_def] h [unfolded db2_def]] unfolding db2_def by blast
  obtain parts where parts: "context_parts (req_user_id req) (req_message req)
       (get_conversation_history db2 (req_user_id req) 10)
       (get_user_sentiment_history db2 (req_user_id req)) db2 = Inr parts"
    using chat_endpoint_prompt_parts [OF f [unfolded db2_def] h [unfolded db2_def]] unfolding db2_def by blast
  have 1: "find_conversation (fst (chat_endpoint env db req)) (req_user_id req) = Some c"
    unfolding fin using f by (simp add: find_conversation_def)
  have 2: "messages (fst (chat_endpoint env db req)) = messages db @ [inbound, saved]"
    unfolding fin by (simp add: m2)
  have "db2\<lparr>messages := messages db2 @ [saved]\<rparr>\<lparr>messages := messages db @ [inbound]\<rparr>
          = db2\<lparr>messages := messages db2\<rparr>"
    by (simp add: m2)
  then have 3: "(fst (chat_endpoint env db req))\<lparr>messages := messages db @ [inbound]\<rparr> = db2"
    unfolding fin by simp
  have 4: "msg_content saved =
       (case generate_content env (join [newline] parts) of
          Inl e \<Rightarrow> apology_reply
        | Inr text \<Rightarrow>
            if strip text = [] \<or> length (strip text) < 10 then fallback_reply else strip text)"
    using gateway_reply_from_prompt [OF parts [unfolded db2_def]] by (simp add: saved_def)
  have 5: "msg_role inbound = ''user''" "msg_content inbound = req_message req"
      "msg_user_id inbound = req_user_id req" "msg_conversation_id inbound = conv_id c"
    by (simp_all add: inbound_def)
  have 6: "msg_role saved = ''assistant''" "msg_id saved = message_id r"
    by (simp_all add: saved_def r(6))
  show ?thesis
    using that [of c inbound saved r parts] 1 2 3 4 5 6 h parts r(1-5)
    unfolding db2_def by blast
qed

lemma consistent_chat:
  assumes "consistent_store db"
  shows "consistent_store (inbound_persisted env db req)"
    and "consistent_store (fst (chat_endpoint env db req))"
proof -
  obtain db1 c where g:
    "get_or_create_conversation (now_created env) (now_updated env) db (req_user_id req) = (db1, c)"
    by (cases "get_or_create_conversation (now_created env) (now_updated env) db (req_user_id req)")
  have c1: "consistent_store db1"
    using consistent_get_or_create [OF assms, of "now_created env" "now_updated env" "req_user_id req"]
    by (simp add: g)
  have f1: "find_conversation db1 (req_user_id req) = Some c"
    using get_or_create_conversation_finds(1) [OF g] .
  have eq: "inbound_persisted env db req =
      fst (save_message (now_user_message env) db1 (req_user_id req) (conv_id c) ''user''
             (req_message req))"
    by (simp add: inbound_persisted_def g)
  show c2: "consistent_store (inbound_persisted env db req)"
    unfolding eq using c1 f1 by (rule consistent_save_message)
  have f2: "find_conversation (inbound_persisted env db req) (req_user_id req) = Some c"
    using f1 by (simp add: eq save_message_def find_conversation_def Let_def)
  have fin: "fst (chat_endpoint env db req) =
      fst (save_message (now_assistant_message env) (inbound_persisted env db req)
             (req_user_id req) (conv_id c) ''assistant'' (gateway_reply env db req))"
    by (simp add: chat_endpoint_stages Let_def g)
  show "consistent_store (fst (chat_endpoint env db req))"
    unfolding fin using c2 f2 by (rule consistent_save_message)
qed



section \<open>The example requests\<close>

text \<open>The store after the first chat request of a new user.\<close>

lemma grateful_store:
  "fst (chat_endpoint example_env empty_db grateful_request) =
     \<lparr> conversations = [example_conversation],
       messages =
         [\<lparr> msg_id = 1, msg_user_id = ''u1'', msg_conversation_id = 1, msg_role = ''user'',
            msg_content = ''I'm grateful and things are better'', msg_timestamp = 101 \<rparr>,
          \<lparr> msg_id = 2, msg_user_id = ''u1'', msg_conversation_id = 1, msg_role = ''assistant'',
            msg_content = ''Thank you for sharing <that> & more.'', msg_timestamp = 102 \<rparr>] \<rparr>"
  by code_simp

text \<open>The example requests, evaluated.\<close>

lemma crisis_request_classified: "is_crisis (analyze_user_message (req_message crisis_request))"
  by code_simp

lemma crisis_gateway_reply:
  "gateway_reply example_env empty_db crisis_request = ''Thank you for sharing <that> & more.''"
  by code_simp

lemma crisis_inbound_contents:
  "map msg_content (messages (inbound_persisted example_env empty_db crisis_request))
     = [''I want to end it all'']"
  by code_simp

lemma grateful_response:
  "map_sum id response (snd (chat_endpoint example_env empty_db grateful_request))
     = Inr ''Thank you for sharing <that> & more.''"
  by code_simp

lemma topics_db_spec:
  "topics_spec (recent_user_messages topics_db example_conversation)
     = [''work'', ''sleep'', ''family'', ''helps;'', ''hurts'']"
  by code_simp




section \<open>Claims\<close>

text \<open>
  C1. The urgency level of a message follows a strict priority order. There are 6 crisis
  phrases and 7 urgent keywords. If the lower-cased message contains one of the crisis
  phrases as a substring, the level is "high", whatever else it contains; otherwise, if it
  contains one of the urgent keywords, the level is "medium"; otherwise it is "low".
\<close>

theorem urgency_level_priority:
  "length crisis_keywords = 6 \<and> length urgent_keywords = 7 \<and>
   urgency_level (analyze_user_message message) =
     (if \<exists>k \<in> set crisis_keywords. \<exists>pre post. lower message = pre @ k @ post then ''high''
      else if \<exists>k \<in> set urgent_keywords. \<exists>pre post. lower message = pre @ k @ post
           then ''medium''
      else ''low'')"
  by (simp add: analyze_user_message_def Let_def any_keyword_iff
      crisis_keywords_def urgent_keywords_def)

theorem urgency_level_priority_witness:
  "urgency_level (analyze_user_message ''I want to END IT ALL, this is an emergency'') = ''high'' \<and>
   urgency_level (analyze_user_message ''Please, it is URGENT'') = ''medium'' \<and>
   urgency_level (analyze_user_message ''Good morning'') = ''low''"
proof -
  have c1: "any_keyword crisis_keywords (lower ''I want to END IT ALL, this is an emergency'')"
    by code_simp
  have c2: "\<not> any_keyword crisis_keywords (lower ''Please, it is URGENT'')"
    by code_simp
  have u2: "any_keyword urgent_keywords (lower ''Please, it is URGENT'')"
    by code_simp
  have c3: "\<not> any_keyword crisis_keywords (lower ''Good morning'')"
    by code_simp
  have u3: "\<not> any_keyword urgent_keywords (lower ''Good morning'')"
    by code_simp
  show ?thesis
    using c1 c2 u2 c3 u3
      urgency_level_priority [of "''I want to END IT ALL, this is an emergency''"]
      urgency_level_priority [of "''Please, it is URGENT''"]
      urgency_level_priority [of "''Good morning''"]
    unfolding any_keyword_iff by simp
qed

text \<open>
  C5. \<open>generate_response\<close> never propagates a failure: it always returns a text. If
  building the prompt or the completion call raises, the text is the fixed apology; if the
  call succeeds and the trimmed text is empty or shorter than 10 characters, it is the fixed
  generic fallback line; otherwise it is the trimmed completion text.
\<close>

theorem generate_response_never_fails:
  "generate_response service uid user_message conversation_history ua db =
     Inr (case build_contextual_prompt uid user_message conversation_history ua db of
            Inl e \<Rightarrow> apology_reply
          | Inr full_prompt \<Rightarrow>
              (case service full_prompt of
                 Inl e \<Rightarrow> apology_reply
               | Inr text \<Rightarrow>
                   if strip text = [] \<or> length (strip text) < 10 then fallback_reply
                   else strip text))"
  by (simp add: generate_response_def generate_response_try_def Let_def split: sum.splits)

theorem generate_response_never_fails_witness:
  "generate_response (constant_service ''  Hi.  '') ''u1'' ''hello'' [] mixed_analysis empty_db
     = Inr fallback_reply \<and>
   generate_response (constant_service '' I am glad you reached out. '') ''u1'' ''hello'' []
       mixed_analysis empty_db
     = Inr ''I am glad you reached out.'' \<and>
   generate_response failing_service ''u1'' ''hello'' [] mixed_analysis empty_db
     = Inr apology_reply \<and>
   generate_response (constant_service '' I am glad you reached out. '') ''u1'' ''hello'' []
       zero_analysis empty_db
     = Inr apology_reply"
proof -
  have p: "build_contextual_prompt ''u1'' ''hello'' [] mixed_analysis empty_db
             = Inr (join [newline] (projr (context_parts ''u1'' ''hello'' [] mixed_analysis empty_db)))"
    by (simp add: build_contextual_prompt_def context_parts_def profile_lines_def
        mixed_analysis_def Let_def)
  have z: "build_contextual_prompt ''u1'' ''hello'' [] zero_analysis empty_db
             = Inl (KeyError ''total_messages'')"
    by (simp add: build_contextual_prompt_def context_parts_def profile_lines_def
        zero_analysis_def)
  have s1: "strip ''  Hi.  '' = ''Hi.''" by code_simp
  have s2: "strip '' I am glad you reached out. '' = ''I am glad you reached out.''" by code_simp
  show ?thesis
    using generate_response_never_fails [of "constant_service ''  Hi.  ''" "''u1''" "''hello''" "[]"
        mixed_analysis empty_db]
      generate_response_never_fails [of "constant_service '' I am glad you reached out. ''"
        "''u1''" "''hello''" "[]" mixed_analysis empty_db]
      generate_response_never_fails [of failing_service "''u1''" "''hello''" "[]"
        mixed_analysis empty_db]
      generate_response_never_fails [of "constant_service '' I am glad you reached out. ''"
        "''u1''" "''hello''" "[]" zero_analysis empty_db]
    by (simp add: p z s1 s2 constant_service_def failing_service_def)
qed

text \<open>
  C7. For a user id with no conversation, or whose conversation has no message of role
  "user", \<open>get_user_sentiment_history\<close> returns the zero-valued dict: message\_count 0,
  no topics, sentiment "neutral".
\<close>

theorem zero_valued_analysis:
  assumes "find_conversation db uid = None \<or>
           (\<exists>c. find_conversation db uid = Some c \<and> \<not> has_user_message db c)"
  shows "get_user_sentiment_history db uid = zero_analysis \<and>
         message_count (get_user_sentiment_history db uid) = 0 \<and>
         topics (get_user_sentiment_history db uid) = [] \<and>
         sentiment (get_user_sentiment_history db uid) = ''neutral''"
  using get_user_sentiment_history_zero [OF assms] by (simp add: zero_analysis_def)

theorem zero_valued_analysis_witness:
  "find_conversation empty_db ''u1'' = None \<and>
   get_user_sentiment_history empty_db ''u1'' = zero_analysis \<and>
   find_conversation assistant_only_db ''u1'' = Some example_conversation \<and>
   \<not> has_user_message assistant_only_db example_conversation \<and>
   get_user_sentiment_history assistant_only_db ''u1'' = zero_analysis \<and>
   message_count (get_user_sentiment_history assistant_only_db ''u1'') = 0 \<and>
   topics (get_user_sentiment_history assistant_only_db ''u1'') = [] \<and>
   sentiment (get_user_sentiment_history assistant_only_db ''u1'') = ''neutral''"
proof -
  have none: "find_conversation empty_db ''u1'' = None"
    by (simp add: find_conversation_def empty_db_def)
  then have first: "find_conversation empty_db ''u1'' = None \<or>
      (\<exists>c. find_conversation empty_db ''u1'' = Some c \<and> \<not> has_user_message empty_db c)"
    by simp
  have some: "find_conversation assistant_only_db ''u1'' = Some example_conversation"
    by code_simp
  have no_user: "\<not> has_user_message assistant_only_db example_conversation"
    by code_simp
  from some no_user have second: "find_conversation assistant_only_db ''u1'' = None \<or>
      (\<exists>c. find_conversation assistant_only_db ''u1'' = Some c \<and>
           \<not> has_user_message assistant_only_db c)"
    by simp
  from zero_valued_analysis [OF first] zero_valued_analysis [OF second] none some no_user
  show ?thesis by blast
qed

text \<open>
  C2. In a chat request whose message is classified as a crisis, the request succeeds, the
  assistant row that it saves holds the reply of the gateway, and the response text is this
  reply followed by the fixed hotline notice: the notice is in the response and not in the
  saved row.
\<close>

theorem crisis_notice_only_in_response:
  assumes "is_crisis (analyze_user_message (req_message req))"
  shows "\<exists>r saved.
           snd (chat_endpoint env db req) = Inr r \<and>
           messages (fst (chat_endpoint env db req)) =
             messages (inbound_persisted env db req) @ [saved] \<and>
           msg_id saved = message_id r \<and>
           msg_role saved = ''assistant'' \<and>
           msg_content saved = gateway_reply env db req \<and>
           response r = gateway_reply env db req @ crisis_notice \<and>
           contains (response r) crisis_notice \<and>
           msg_content saved \<noteq> response r"
proof -
  obtain r where r: "snd (chat_endpoint env db req) = Inr r"
    "response r = gateway_reply env db req @ crisis_notice"
    "message_id r = next_id (map msg_id (messages (inbound_persisted env db req)))"
    using chat_endpoint_response [of env db req] assms by auto
  have c: "contains (response r) crisis_notice"
    unfolding contains_iff r(2) by (metis append_Nil2)
  have n: "gateway_reply env db req \<noteq> response r"
    by (simp add: r(2) crisis_notice_def)
  show ?thesis
    using r c n chat_endpoint_store [of env db req] by simp
qed

theorem crisis_notice_only_in_response_witness:
  "is_crisis (analyze_user_message (req_message crisis_request)) \<and>
   map_sum id response (snd (chat_endpoint example_env empty_db crisis_request))
     = Inr (''Thank you for sharing <that> & more.'' @ crisis_notice) \<and>
   map msg_content (messages (fst (chat_endpoint example_env empty_db crisis_request)))
     = [''I want to end it all'', ''Thank you for sharing <that> & more.'']"
  using crisis_notice_only_in_response [OF crisis_request_classified, of example_env empty_db]
    crisis_request_classified
  by (auto simp: crisis_gateway_reply crisis_inbound_contents)

text \<open>
  C4. For a user with a message of role "user", the sentiment is the majority vote over
  the tokens of the recent user messages (the same tokens the topics are taken from): a
  token counts when it is equal to one of the 9 positive words, or to one of the 9 negative
  words; "positive" if the positive count is greater, "negative" if the negative count is
  greater, "neutral" if the counts are equal.
\<close>

theorem sentiment_majority:
  assumes "find_conversation db uid = Some c" and "has_user_message db c"
  shows "length positive_words = 9 \<and> length negative_words = 9 \<and>
    topics (get_user_sentiment_history db uid) =
      map fst (take 5 (sorted_by_count_desc (word_freq (words_of (recent_user_messages db c))))) \<and>
    sentiment (get_user_sentiment_history db uid) =
      (let tokens = words_of (recent_user_messages db c);
           positive_count = length (filter (\<lambda>t. t \<in> set positive_words) tokens);
           negative_count = length (filter (\<lambda>t. t \<in> set negative_words) tokens)
       in if positive_count > negative_count then ''positive''
          else if negative_count > positive_count then ''negative''
          else ''neutral'')"
  by (simp add: get_user_sentiment_history_full [OF assms] count_in_eq Let_def
      positive_words_def negative_words_def)

theorem sentiment_majority_witness:
  "sentiment (get_user_sentiment_history
     (fst (chat_endpoint example_env empty_db grateful_request)) ''u1'') = ''positive''"
proof -
  let ?db = "fst (chat_endpoint example_env empty_db grateful_request)"
  have f: "find_conversation ?db ''u1'' = Some example_conversation"
    unfolding grateful_store by code_simp
  have h: "has_user_message ?db example_conversation"
    unfolding grateful_store by code_simp
  have e: "(let tokens = words_of (recent_user_messages ?db example_conversation);
           positive_count = length (filter (\<lambda>t. t \<in> set positive_words) tokens);
           negative_count = length (filter (\<lambda>t. t \<in> set negative_words) tokens)
       in if positive_count > negative_count then ''positive''
          else if negative_count > positive_count then ''negative''
          else ''neutral'') = ''positive''"
    unfolding grateful_store by code_simp
  from sentiment_majority [OF f h] e show ?thesis by (simp only:)
qed

text \<open>
  C6, as the claim states it, fails for a user without a conversation: the user has 0 rows,
  for which the claim says "low", and the dict has no engagement level at all.
\<close>

theorem engagement_level_counterexample:
  "count_user_rows empty_db ''u1'' = 0 \<and>
   engagement_level (get_user_sentiment_history empty_db ''u1'') \<noteq> Some ''low''"
  by (simp add: count_user_rows_def get_user_sentiment_history_def find_conversation_def
      empty_db_def zero_analysis_def)

text \<open>
  C6, amended. For a user with a message of role "user" in the conversation, the dict has
  the number of all rows of the user under total\_messages, and the engagement level is
  "high" iff this number is above 20, "medium" iff it is above 10 and at most 20, and "low"
  iff it is at most 10. For a user without a conversation, or without a message of role
  "user" in it, the dict has neither the key total\_messages nor the key engagement\_level.
\<close>

theorem engagement_level_thresholds:
  "(\<forall>c. find_conversation db uid = Some c \<and> has_user_message db c \<longrightarrow>
      total_messages (get_user_sentiment_history db uid) = Some (count_user_rows db uid) \<and>
      (engagement_level (get_user_sentiment_history db uid) = Some ''high''
         \<longleftrightarrow> count_user_rows db uid > 20) \<and>
      (engagement_level (get_user_sentiment_history db uid) = Some ''medium''
         \<longleftrightarrow> 10 < count_user_rows db uid \<and> count_user_rows db uid \<le> 20) \<and>
      (engagement_level (get_user_sentiment_history db uid) = Some ''low''
         \<longleftrightarrow> count_user_rows db uid \<le> 10)) \<and>
   (find_conversation db uid = None \<or>
    (\<exists>c. find_conversation db uid = Some c \<and> \<not> has_user_message db c) \<longrightarrow>
      total_messages (get_user_sentiment_history db uid) = None \<and>
      engagement_level (get_user_sentiment_history db uid) = None)"
proof (intro conjI allI impI)
  fix c
  assume a: "find_conversation db uid = Some c \<and> has_user_message db c"
  then have full: "find_conversation db uid = Some c" "has_user_message db c" by simp_all
  show "total_messages (get_user_sentiment_history db uid) = Some (count_user_rows db uid)"
    by (simp add: get_user_sentiment_history_full [OF full])
  show "engagement_level (get_user_sentiment_history db uid) = Some ''high''
         \<longleftrightarrow> count_user_rows db uid > 20"
    by (simp add: get_user_sentiment_history_full [OF full])
  show "engagement_level (get_user_sentiment_history db uid) = Some ''medium''
         \<longleftrightarrow> 10 < count_user_rows db uid \<and> count_user_rows db uid \<le> 20"
    by (simp add: get_user_sentiment_history_full [OF full])
  show "engagement_level (get_user_sentiment_history db uid) = Some ''low''
         \<longleftrightarrow> count_user_rows db uid \<le> 10"
    by (simp add: get_user_sentiment_history_full [OF full])
next
  assume "find_conversation db uid = None \<or>
    (\<exists>c. find_conversation db uid = Some c \<and> \<not> has_user_message db c)"
  then have z: "get_user_sentiment_history db uid = zero_analysis"
    by (rule get_user_sentiment_history_zero)
  show "total_messages (get_user_sentiment_history db uid) = None"
    by (simp add: z zero_analysis_def)
  show "engagement_level (get_user_sentiment_history db uid) = None"
    by (simp add: z zero_analysis_def)
qed

theorem engagement_level_thresholds_witness:
  "count_user_rows (db_with_rows 10) ''u1'' = 10 \<and>
   engagement_level (get_user_sentiment_history (db_with_rows 10) ''u1'') = Some ''low'' \<and>
   count_user_rows (db_with_rows 11) ''u1'' = 11 \<and>
   engagement_level (get_user_sentiment_history (db_with_rows 11) ''u1'') = Some ''medium'' \<and>
   count_user_rows (db_with_rows 21) ''u1'' = 21 \<and>
   engagement_level (get_user_sentiment_history (db_with_rows 21) ''u1'') = Some ''high'' \<and>
   find_conversation empty_db ''u1'' = None \<and>
   total_messages (get_user_sentiment_history empty_db ''u1'') = None \<and>
   engagement_level (get_user_sentiment_history empty_db ''u1'') = None \<and>
   find_conversation assistant_only_db ''u1'' = Some example_conversation \<and>
   \<not> has_user_message assistant_only_db example_conversation \<and>
   total_messages (get_user_sentiment_history assistant_only_db ''u1'') = None \<and>
   engagement_level (get_user_sentiment_history assistant_only_db ''u1'') = None"
proof -
  have f: "find_conversation (db_with_rows n) ''u1'' = Some example_conversation" for n
    by (simp add: find_conversation_def db_with_rows_def example_conversation_def)
  have h10: "has_user_message (db_with_rows 10) example_conversation" by code_simp
  have h11: "has_user_message (db_with_rows 11) example_conversation" by code_simp
  have h21: "has_user_message (db_with_rows 21) example_conversation" by code_simp
  have n10: "count_user_rows (db_with_rows 10) ''u1'' = 10" by code_simp
  have n11: "count_user_rows (db_with_rows 11) ''u1'' = 11" by code_simp
  have n21: "count_user_rows (db_with_rows 21) ''u1'' = 21" by code_simp
  have none: "find_conversation empty_db ''u1'' = None"
    by (simp add: find_conversation_def empty_db_def)
  have some: "find_conversation assistant_only_db ''u1'' = Some example_conversation"
    by code_simp
  have no_user: "\<not> has_user_message assistant_only_db example_conversation"
    by code_simp
  note t10 = engagement_level_thresholds [of "db_with_rows 10" "''u1''", THEN conjunct1,
      rule_format, OF conjI [OF f h10]]
  note t11 = engagement_level_thresholds [of "db_with_rows 11" "''u1''", THEN conjunct1,
      rule_format, OF conjI [OF f h11]]
  note t21 = engagement_level_thresholds [of "db_with_rows 21" "''u1''", THEN conjunct1,
      rule_format, OF conjI [OF f h21]]
  note z1 = engagement_level_thresholds [of empty_db "''u1''", THEN conjunct2,
      rule_format, OF disjI1 [OF none]]
  have "\<exists>c. find_conversation assistant_only_db ''u1'' = Some c \<and>
          \<not> has_user_message assistant_only_db c"
    using some no_user by blast
  note z2 = engagement_level_thresholds [of assistant_only_db "''u1''", THEN conjunct2,
      rule_format, OF disjI2 [OF this]]
  show ?thesis
    using t10 t11 t21 z1 z2 n10 n11 n21 none some no_user by simp
qed

text \<open>
  C9, as the claim states it, fails: for a reply with the characters \<open><\<close>, \<open>>\<close> and \<open>&\<close>
  the response\_html is the reply itself, where the escaped variant has entities.
\<close>

theorem response_html_counterexample:
  "map_sum id response (snd (chat_endpoint example_env empty_db grateful_request))
     = Inr ''Thank you for sharing <that> & more.'' \<and>
   map_sum id response_html (snd (chat_endpoint example_env empty_db grateful_request))
     = Inr ''Thank you for sharing <that> & more.'' \<and>
   response_html_spec ''Thank you for sharing <that> & more.''
     = ''Thank you for sharing &lt;that&gt; &amp; more.''"
  by code_simp

text \<open>
  C9, amended. Every chat request succeeds, and response\_html is the response text with
  every line feed replaced by \<open><br>\<close> and every other character unchanged (nothing is
  escaped): a response without line feeds is its own response\_html.
\<close>

theorem response_html_line_breaks:
  "\<exists>r. snd (chat_endpoint env db req) = Inr r \<and>
        response_html r = concat (map (\<lambda>c. if c = newline then ''<br>'' else [c]) (response r)) \<and>
        (newline \<notin> set (response r) \<longrightarrow> response_html r = response r)"
proof -
  have id: "concat (map (\<lambda>c. if c = newline then ''<br>'' else [c]) s) = s"
    if "newline \<notin> set s" for s
    using that by (induction s) auto
  obtain r where r: "snd (chat_endpoint env db req) = Inr r"
    "response_html r = replace_char newline ''<br>'' (response r)"
    using chat_endpoint_response [of env db req] by auto
  show ?thesis
    using r id [of "response r"] by (auto simp: replace_char_def)
qed

theorem response_html_line_breaks_witness:
  "newline \<notin> set ''Thank you for sharing <that> & more.'' \<and>
   map_sum id response_html (snd (chat_endpoint example_env empty_db grateful_request))
     = Inr ''Thank you for sharing <that> & more.''"
proof -
  have n: "newline \<notin> set ''Thank you for sharing <that> & more.''"
    by (simp add: newline_def)
  obtain r where r: "snd (chat_endpoint example_env empty_db grateful_request) = Inr r"
    "newline \<notin> set (response r) \<longrightarrow> response_html r = response r"
    using response_html_line_breaks [of example_env empty_db grateful_request] by blast
  have "response r = ''Thank you for sharing <that> & more.''"
    using grateful_response r(1) by simp
  with r n show ?thesis by simp
qed

text \<open>
  C10. Every chat request ends with a response, and its store is the store before with two
  rows more: the inbound message, of role "user" and in the conversation of the user, and
  then the reply. The analysis in the response is the analysis of the store with the
  inbound row and without the reply: on that store the user has a conversation with a user
  message, so neither early return of \<open>get_user_sentiment_history\<close> is taken,
  message\_count is at least 1, and the dict has the keys total\_messages,
  engagement\_level and last\_message\_time, whose values the response carries. The prompt
  is built from this analysis without a \<open>KeyError\<close>, and the saved reply is what the
  gateway makes of the completion for this prompt.
\<close>

theorem analysis_after_inbound_message:
  "\<exists>c inbound saved r parts.
     messages (fst (chat_endpoint env db req)) = messages db @ [inbound, saved] \<and>
     find_conversation (fst (chat_endpoint env db req)) (req_user_id req) = Some c \<and>
     msg_role inbound = ''user'' \<and> msg_content inbound = req_message req \<and>
     msg_user_id inbound = req_user_id req \<and> msg_conversation_id inbound = conv_id c \<and>
     msg_role saved = ''assistant'' \<and> msg_id saved = message_id r \<and>
     snd (chat_endpoint env db req) = Inr r \<and>
     (let db2 = (fst (chat_endpoint env db req))\<lparr>messages := messages db @ [inbound]\<rparr>;
          ua = get_user_sentiment_history db2 (req_user_id req)
      in recent_user_messages db2 c \<noteq> [] \<and>
         1 \<le> message_count ua \<and>
         total_messages ua = Some (ca_total_messages (context_analysis r)) \<and>
         engagement_level ua = Some (ca_engagement_level (context_analysis r)) \<and>
         last_message_time ua \<noteq> None \<and>
         sentiment_trend (context_analysis r) = sentiment ua \<and>
         common_topics (context_analysis r) = topics ua \<and>
         context_parts (req_user_id req) (req_message req)
           (get_conversation_history db2 (req_user_id req) 10) ua db2 = Inr parts \<and>
         msg_content saved =
           (case generate_content env (join [newline] parts) of
              Inl e \<Rightarrow> apology_reply
            | Inr text \<Rightarrow>
                if strip text = [] \<or> length (strip text) < 10 then fallback_reply
                else strip text))"
proof -
  obtain c inbound saved r parts where flow:
    "find_conversation (fst (chat_endpoint env db req)) (req_user_id req) = Some c"
    "messages (fst (chat_endpoint env db req)) = messages db @ [inbound, saved]"
    "msg_role inbound = ''user''" "msg_content inbound = req_message req"
    "msg_user_id inbound = req_user_id req" "msg_conversation_id inbound = conv_id c"
    "msg_role saved = ''assistant''" "msg_id saved = message_id r"
    "(fst (chat_endpoint env db req))\<lparr>messages := messages db @ [inbound]\<rparr>
       = inbound_persisted env db req"
    "has_user_message (inbound_persisted env db req) c"
    "context_parts (req_user_id req) (req_message req)
       (get_conversation_history (inbound_persisted env db req) (req_user_id req) 10)
       (get_user_sentiment_history (inbound_persisted env db req) (req_user_id req))
       (inbound_persisted env db req) = Inr parts"
    "msg_content saved =
       (case generate_content env (join [newline] parts) of
          Inl e \<Rightarrow> apology_reply
        | Inr text \<Rightarrow>
            if strip text = [] \<or> length (strip text) < 10 then fallback_reply else strip text)"
    "snd (chat_endpoint env db req) = Inr r"
    "total_messages (get_user_sentiment_history (inbound_persisted env db req) (req_user_id req))
       = Some (ca_total_messages (context_analysis r))"
    "engagement_level (get_user_sentiment_history (inbound_persisted env db req) (req_user_id req))
       = Some (ca_engagement_level (context_analysis r))"
    "sentiment_trend (context_analysis r)
       = sentiment (get_user_sentiment_history (inbound_persisted env db req) (req_user_id req))"
    "common_topics (context_analysis r)
       = topics (get_user_sentiment_history (inbound_persisted env db req) (req_user_id req))"
    by (rule chat_endpoint_flow)
  let ?db2 = "inbound_persisted env db req"
  obtain c' where c': "find_conversation ?db2 (req_user_id req) = Some c'"
    "has_user_message ?db2 c'"
    by (rule inbound_analysis)
  have "find_conversation (fst (chat_endpoint env db req)) (req_user_id req)
          = find_conversation ?db2 (req_user_id req)"
    unfolding flow(9) [symmetric] by (simp add: find_conversation_def)
  with flow(1) c'(1) have f: "find_conversation ?db2 (req_user_id req) = Some c" by simp
  have ne: "recent_user_messages ?db2 c \<noteq> []"
    using flow(10) by (simp add: recent_user_messages_empty_iff)
  then have len: "1 \<le> length (recent_user_messages ?db2 c)"
    by (cases "recent_user_messages ?db2 c") simp_all
  have mc: "1 \<le> message_count (get_user_sentiment_history ?db2 (req_user_id req))"
    using len by (simp add: get_user_sentiment_history_full [OF f flow(10)])
  have lt: "last_message_time (get_user_sentiment_history ?db2 (req_user_id req)) \<noteq> None"
    by (simp add: get_user_sentiment_history_full [OF f flow(10)])
  have body: "let db2 = (fst (chat_endpoint env db req))\<lparr>messages := messages db @ [inbound]\<rparr>;
          ua = get_user_sentiment_history db2 (req_user_id req)
      in recent_user_messages db2 c \<noteq> [] \<and>
         1 \<le> message_count ua \<and>
         total_messages ua = Some (ca_total_messages (context_analysis r)) \<and>
         engagement_level ua = Some (ca_engagement_level (context_analysis r)) \<and>
         last_message_time ua \<noteq> None \<and>
         sentiment_trend (context_analysis r) = sentiment ua \<and>
         common_topics (context_analysis r) = topics ua \<and>
         context_parts (req_user_id req) (req_message req)
           (get_conversation_history db2 (req_user_id req) 10) ua db2 = Inr parts \<and>
         msg_content saved =
           (case generate_content env (join [newline] parts) of
              Inl e \<Rightarrow> apology_reply
            | Inr text \<Rightarrow>
                if strip text = [] \<or> length (strip text) < 10 then fallback_reply
                else strip text)"
    unfolding Let_def flow(9)
    using ne mc flow(14,15) lt flow(16,17,11,12) by (intro conjI)
  from flow(2,1,3-8,13) body show ?thesis by blast
qed

theorem analysis_after_inbound_message_witness:
  "\<exists>c inbound saved r parts.
     messages (fst (chat_endpoint example_env empty_db grateful_request))
       = messages empty_db @ [inbound, saved] \<and>
     find_conversation (fst (chat_endpoint example_env empty_db grateful_request))
       (req_user_id grateful_request) = Some c \<and>
     msg_role inbound = ''user'' \<and> msg_content inbound = req_message grateful_request \<and>
     msg_user_id inbound = req_user_id grateful_request \<and>
     msg_conversation_id inbound = conv_id c \<and>
     msg_role saved = ''assistant'' \<and> msg_id saved = message_id r \<and>
     snd (chat_endpoint example_env empty_db grateful_request) = Inr r \<and>
     (let db2 = (fst (chat_endpoint example_env empty_db grateful_request))
                  \<lparr>messages := messages empty_db @ [inbound]\<rparr>;
          ua = get_user_sentiment_history db2 (req_user_id grateful_request)
      in recent_user_messages db2 c \<noteq> [] \<and>
         1 \<le> message_count ua \<and>
         total_messages ua = Some (ca_total_messages (context_analysis r)) \<and>
         engagement_level ua = Some (ca_engagement_level (context_analysis r)) \<and>
         last_message_time ua \<noteq> None \<and>
         sentiment_trend (context_analysis r) = sentiment ua \<and>
         common_topics (context_analysis r) = topics ua \<and>
         context_parts (req_user_id grateful_request) (req_message grateful_request)
           (get_conversation_history db2 (req_user_id grateful_request) 10) ua db2 = Inr parts \<and>
         msg_content saved =
           (case generate_content example_env (join [newline] parts) of
              Inl e \<Rightarrow> apology_reply
            | Inr text \<Rightarrow>
                if strip text = [] \<or> length (strip text) < 10 then fallback_reply
                else strip text))"
  by (rule analysis_after_inbound_message)



text \<open>
  C3. For a user with a message of role "user", the topics are computed as the
  specification says. The messages taken are at most 50 user messages of the conversation,
  latest first, and no user message left out is later than one taken. Their lower-cased
  texts are joined and split at white space; the frequency dict of the code is the
  frequency map of the specification: every token longer than 3 characters once, in the
  order of first appearance, with its number of occurrences. The ranking has the same
  items, by falling frequency, and among the items of one frequency it keeps the order of
  the frequency map; the topics are the tokens of its first 5 items. The topics depend on
  the ordered list of messages only: the same list gives the same topics.
\<close>

theorem topics_ranking:
  assumes "find_conversation db uid = Some c" and "has_user_message db c"
  shows
    "let recent = recent_user_messages db c;
         tokens = split (join '' '' (map (\<lambda>m. lower (msg_content m)) recent));
         freq = frequency_spec tokens;
         ranked = sort_key (\<lambda>item. - int (snd item)) freq
     in topics (get_user_sentiment_history db uid) = topics_spec recent \<and>
        topics_spec recent = map fst (take 5 ranked) \<and>
        length recent \<le> 50 \<and>
        sorted_wrt (\<lambda>a b. msg_timestamp b \<le> msg_timestamp a) recent \<and>
        set recent \<subseteq> {m \<in> set (messages db).
                         msg_conversation_id m = conv_id c \<and> msg_role m = ''user''} \<and>
        (\<forall>m \<in> {m \<in> set (messages db).
                    msg_conversation_id m = conv_id c \<and> msg_role m = ''user''} - set recent.
           \<forall>r \<in> set recent. msg_timestamp m \<le> msg_timestamp r) \<and>
        word_freq tokens = freq \<and>
        set ranked = set freq \<and> length ranked = length freq \<and>
        sorted_wrt (\<lambda>a b. snd b \<le> snd a) ranked \<and>
        (\<forall>k. filter (\<lambda>item. snd item = k) ranked = filter (\<lambda>item. snd item = k) freq) \<and>
        (\<forall>db' uid' c'. find_conversation db' uid' = Some c' \<and>
             recent_user_messages db' c' = recent \<longrightarrow>
             topics (get_user_sentiment_history db' uid')
               = topics (get_user_sentiment_history db uid))"
proof -
  have same: "topics (get_user_sentiment_history db' uid')
                = topics (get_user_sentiment_history db uid)"
    if "find_conversation db' uid' = Some c'"
      and "recent_user_messages db' c' = recent_user_messages db c" for db' uid' c'
  proof -
    have "recent_user_messages db c \<noteq> []"
      using assms(2) by (simp add: recent_user_messages_empty_iff)
    then have "has_user_message db' c'"
      using that(2) recent_user_messages_empty_iff [of db' c'] by simp
    then show ?thesis
      using topics_refine [OF that(1)] topics_refine [OF assms] that(2) by simp
  qed
  show ?thesis
    unfolding Let_def
    using topics_refine [OF assms] recent_user_messages_facts [of db c] same
    by (simp add: topics_spec_def Let_def word_freq_spec sorted_by_count_desc_facts)
qed

theorem topics_ranking_witness:
  "find_conversation topics_db ''u1'' = Some example_conversation \<and>
   has_user_message topics_db example_conversation \<and>
   topics (get_user_sentiment_history topics_db ''u1'')
     = [''work'', ''sleep'', ''family'', ''helps;'', ''hurts'']"
proof -
  have f: "find_conversation topics_db ''u1'' = Some example_conversation" by code_simp
  have h: "has_user_message topics_db example_conversation" by code_simp
  from topics_ranking [OF f h]
  have "topics (get_user_sentiment_history topics_db ''u1'')
          = topics_spec (recent_user_messages topics_db example_conversation)"
    unfolding Let_def by (rule conjunct1)
  with f h topics_db_spec show ?thesis by simp
qed

end
